theory Spec2Isabelle
  imports Complex_Main
begin

section \<open>JSON values as the handlers see them\<close>

text \<open>
  The request bodies are parsed by \<^verbatim>\<open>express.json()\<close>, so every field a handler
  destructures is a JSON value or \<^verbatim>\<open>undefined\<close>. A string is the list of its UTF-8
  bytes. A number is the decimal the body wrote, kept as a rational: JavaScript's
  doubles agree with it on every decimal of at most 15 significant digits, and no
  handler does arithmetic on a number. An object is the list of its properties in
  the order JavaScript enumerates them, each key once.
\<close>

datatype jsval =
    JUndefined
  | JNull
  | JBool bool
  | JNum rat
  | JStr string
  | JArr "jsval list"
  | JObj "(string \<times> jsval) list"

datatype js_error = TypeError | DbError

text \<open>JavaScript truthiness, as used by \<^verbatim>\<open>!x\<close> and \<^verbatim>\<open>x || y\<close>.\<close>

fun truthy :: "jsval \<Rightarrow> bool" where
  "truthy JUndefined = False"
| "truthy JNull = False"
| "truthy (JBool b) = b"
| "truthy (JNum n) = (n \<noteq> 0)"
| "truthy (JStr s) = (s \<noteq> [])"
| "truthy (JArr xs) = True"
| "truthy (JObj fs) = True"

text \<open>
  The code points of a string: a byte that is no continuation byte starts one. A
  JavaScript string counts a code point outside the basic plane (four bytes) twice
  in its \<^verbatim>\<open>length\<close>.
\<close>

definition char_code :: "char \<Rightarrow> nat" where
  "char_code c = of_char c"

definition is_continuation :: "char \<Rightarrow> bool" where
  "is_continuation c = (128 \<le> char_code c \<and> char_code c < 192)"

function utf8_chars :: "string \<Rightarrow> string list" where
  "utf8_chars [] = []"
| "utf8_chars (c # cs) =
     (c # takeWhile is_continuation cs) # utf8_chars (dropWhile is_continuation cs)"
  by pat_completeness auto
termination
  by (relation "measure length") (auto simp: length_dropWhile_le less_Suc_eq_le)

definition utf16_length :: "string \<Rightarrow> nat" where
  "utf16_length s = sum_list (map (\<lambda>ch. if length ch = 4 then 2 else 1) (utf8_chars s))"

text \<open>
  Property read \<^verbatim>\<open>v.k\<close> for the named properties the handlers read
  (\<^verbatim>\<open>length\<close>, \<^verbatim>\<open>id\<close>, \<^verbatim>\<open>quantity\<close>, \<^verbatim>\<open>price\<close>): on \<^verbatim>\<open>null\<close> and
  \<^verbatim>\<open>undefined\<close> it throws a TypeError, on a primitive without that property it is
  \<^verbatim>\<open>undefined\<close>.
\<close>

fun get_prop :: "jsval \<Rightarrow> string \<Rightarrow> js_error + jsval" where
  "get_prop JUndefined k = Inl TypeError"
| "get_prop JNull k = Inl TypeError"
| "get_prop (JBool b) k = Inr JUndefined"
| "get_prop (JNum n) k = Inr JUndefined"
| "get_prop (JStr s) k = Inr (if k = ''length'' then JNum (of_nat (utf16_length s)) else JUndefined)"
| "get_prop (JArr xs) k = Inr (if k = ''length'' then JNum (of_nat (length xs)) else JUndefined)"
| "get_prop (JObj fs) k = Inr (case map_of fs k of None \<Rightarrow> JUndefined | Some v \<Rightarrow> v)"

text \<open>
  \<^verbatim>\<open>for (const x of v)\<close>: an array yields its elements, a string its code points,
  anything else is not iterable and throws.
\<close>

fun iterate :: "jsval \<Rightarrow> js_error + jsval list" where
  "iterate (JArr xs) = Inr xs"
| "iterate (JStr s) = Inr (map JStr (utf8_chars s))"
| "iterate v = Inl TypeError"

text \<open>
  \<^verbatim>\<open>const { a, b } = req.body\<close>: the body is the parsed JSON object, a field that
  is not there reads as \<^verbatim>\<open>undefined\<close>.
\<close>

type_synonym body = "(string \<times> jsval) list"

definition field :: "body \<Rightarrow> string \<Rightarrow> jsval" where
  "field b k = (case map_of b k of None \<Rightarrow> JUndefined | Some v \<Rightarrow> v)"


section \<open>What the driver sends\<close>

text \<open>
  The \<^verbatim>\<open>pg\<close> driver sends every parameter as text, or as NULL: \<^verbatim>\<open>null\<close> and
  \<^verbatim>\<open>undefined\<close> become NULL, a string is sent as it is, a number and a boolean
  through \<^verbatim>\<open>toString()\<close>, an array as a PostgreSQL array literal, any other object
  through \<^verbatim>\<open>JSON.stringify\<close>.
\<close>

definition digit_char :: "nat \<Rightarrow> char" where
  "digit_char n = char_of (48 + n)"

function int_digits :: "int \<Rightarrow> string" where
  "int_digits n = (if n < 10 then [digit_char (nat n)]
                   else int_digits (n div 10) @ [digit_char (nat (n mod 10))])"
  by pat_completeness auto
termination
  by (relation "measure nat") auto

declare int_digits.simps [simp del]

text \<open>The least \<open>k\<close> from \<open>k0\<close> on with \<open>d\<close> dividing \<open>10 ^ k\<close>, within \<open>fuel\<close> steps.\<close>

function scale_of :: "int \<Rightarrow> int \<Rightarrow> int \<Rightarrow> int" where
  "scale_of d k fuel =
     (if fuel \<le> 0 \<or> d dvd 10 ^ nat k then k else scale_of d (k + 1) (fuel - 1))"
  by pat_completeness auto
termination
  by (relation "measure (\<lambda>(d, k, fuel). nat fuel)") auto

declare scale_of.simps [simp del]

text \<open>
  \<^verbatim>\<open>Number.prototype.toString\<close>: with \<open>sig\<close> the significant digits and \<open>n\<close> the
  position of the decimal point, plain notation for \<open>-6 < n \<le> 21\<close> and exponent
  notation otherwise.
\<close>

definition number_to_string :: "rat \<Rightarrow> string" where
  "number_to_string q =
     (if q = 0 then ''0''
      else let a = fst (quotient_of q); d = snd (quotient_of q);
               k = scale_of d 0 d;
               ds = int_digits (\<bar>a\<bar> * 10 ^ nat k div d);
               sig = rev (dropWhile (\<lambda>c. c = CHR ''0'') (rev ds));
               n = int (length ds) - k;
               kk = int (length sig);
               text =
                 (if kk \<le> n \<and> n \<le> 21 then sig @ replicate (nat (n - kk)) (CHR ''0'')
                  else if 0 < n \<and> n \<le> 21 then take (nat n) sig @ ''.'' @ drop (nat n) sig
                  else if - 6 < n \<and> n \<le> 0 then ''0.'' @ replicate (nat (- n)) (CHR ''0'') @ sig
                  else (if kk = 1 then sig else take 1 sig @ ''.'' @ drop 1 sig)
                       @ ''e'' @ (if 1 \<le> n then ''+'' else ''-'') @ int_digits \<bar>n - 1\<bar>)
           in (if q < 0 then ''-'' else []) @ text)"

definition bool_to_string :: "bool \<Rightarrow> string" where
  "bool_to_string b = (if b then ''true'' else ''false'')"

fun commas :: "string list \<Rightarrow> string" where
  "commas [] = []"
| "commas [x] = x"
| "commas (x # y # zs) = x @ '','' @ commas (y # zs)"

text \<open>\<^verbatim>\<open>JSON.stringify\<close> on a parsed value.\<close>

definition hex_digit :: "nat \<Rightarrow> char" where
  "hex_digit n = (if n < 10 then char_of (48 + n) else char_of (87 + n))"

definition json_escape :: "char \<Rightarrow> string" where
  "json_escape c =
     (if c = CHR 0x22 then [CHR 0x5C, CHR 0x22]
      else if c = CHR 0x5C then [CHR 0x5C, CHR 0x5C]
      else if c = CHR 0x08 then [CHR 0x5C, CHR ''b'']
      else if c = CHR 0x0C then [CHR 0x5C, CHR ''f'']
      else if c = CHR 0x0A then [CHR 0x5C, CHR ''n'']
      else if c = CHR 0x0D then [CHR 0x5C, CHR ''r'']
      else if c = CHR 0x09 then [CHR 0x5C, CHR ''t'']
      else if char_code c < 32
      then [CHR 0x5C, CHR ''u'', CHR ''0'', CHR ''0'',
            hex_digit (char_code c div 16), hex_digit (char_code c mod 16)]
      else [c])"

definition json_quote :: "string \<Rightarrow> string" where
  "json_quote s = [CHR 0x22] @ concat (map json_escape s) @ [CHR 0x22]"

primrec stringify :: "jsval \<Rightarrow> string" where
  "stringify JUndefined = ''null''"
| "stringify JNull = ''null''"
| "stringify (JBool b) = bool_to_string b"
| "stringify (JNum q) = number_to_string q"
| "stringify (JStr s) = json_quote s"
| "stringify (JArr xs) = ''['' @ commas (map stringify xs) @ '']''"
| "stringify (JObj fs) =
     ''{'' @ commas (map (\<lambda>kv. json_quote (fst kv) @ '':'' @ snd kv)
                      (map (map_prod id stringify) fs)) @ ''}''"

text \<open>The driver's \<^verbatim>\<open>escapeElement\<close> and \<^verbatim>\<open>arrayString\<close>.\<close>

definition escapeElement :: "string \<Rightarrow> string" where
  "escapeElement s =
     [CHR 0x22] @
     concat (map (\<lambda>c. if c = CHR 0x5C then [CHR 0x5C, CHR 0x5C]
                       else if c = CHR 0x22 then [CHR 0x5C, CHR 0x22] else [c]) s) @
     [CHR 0x22]"

primrec array_element :: "jsval \<Rightarrow> string" where
  "array_element JUndefined = ''NULL''"
| "array_element JNull = ''NULL''"
| "array_element (JBool b) = escapeElement (bool_to_string b)"
| "array_element (JNum q) = escapeElement (number_to_string q)"
| "array_element (JStr s) = escapeElement s"
| "array_element (JArr xs) = ''{'' @ commas (map array_element xs) @ ''}''"
| "array_element (JObj fs) = escapeElement (stringify (JObj fs))"

definition arrayString :: "jsval list \<Rightarrow> string" where
  "arrayString xs = ''{'' @ commas (map array_element xs) @ ''}''"

text \<open>The text of a parameter, \<open>None\<close> for NULL.\<close>

fun prepareValue :: "jsval \<Rightarrow> string option" where
  "prepareValue JUndefined = None"
| "prepareValue JNull = None"
| "prepareValue (JBool b) = Some (bool_to_string b)"
| "prepareValue (JNum q) = Some (number_to_string q)"
| "prepareValue (JStr s) = Some s"
| "prepareValue (JArr xs) = Some (arrayString xs)"
| "prepareValue (JObj fs) = Some (stringify (JObj fs))"

declare prepareValue.simps [simp del]


section \<open>What the database makes of a parameter\<close>

text \<open>
  The columns of \<^verbatim>\<open>initDB\<close> are VARCHAR(255) (the role: VARCHAR(50)), INTEGER and
  NUMERIC(10, 2). The input functions below follow PostgreSQL: an integer is an
  optional sign and decimal digits within 32 bits; a numeric is \<^verbatim>\<open>NaN\<close> or an
  optional sign, digits with at most one decimal point, and an optional exponent; both
  allow white space around the literal. The notations newer servers add (hexadecimal, underscores) are taken
  as malformed.
\<close>

definition is_space :: "char \<Rightarrow> bool" where
  "is_space c = (c = CHR '' '' \<or> (9 \<le> char_code c \<and> char_code c \<le> 13))"

definition is_digit :: "char \<Rightarrow> bool" where
  "is_digit c = (48 \<le> char_code c \<and> char_code c \<le> 57)"

definition trim :: "string \<Rightarrow> string" where
  "trim s = rev (dropWhile is_space (rev (dropWhile is_space s)))"

definition digits_value :: "string \<Rightarrow> int" where
  "digits_value s = foldl (\<lambda>acc c. 10 * acc + (int (char_code c) - 48)) 0 s"

text \<open>A sign and what follows it.\<close>

fun split_sign :: "string \<Rightarrow> bool \<times> string" where
  "split_sign [] = (False, [])"
| "split_sign (c # cs) =
     (if c = CHR ''-'' then (True, cs) else if c = CHR ''+'' then (False, cs)
      else (False, c # cs))"

definition signed_digits :: "string \<Rightarrow> int option" where
  "signed_digits s =
     (let neg = fst (split_sign s); r = snd (split_sign s) in
      if r \<noteq> [] \<and> list_all is_digit r
      then Some (if neg then - digits_value r else digits_value r)
      else None)"

definition int4in :: "string \<Rightarrow> int option" where
  "int4in s =
     (case signed_digits (trim s) of
        None \<Rightarrow> None
      | Some n \<Rightarrow> if - 2147483648 \<le> n \<and> n \<le> 2147483647 then Some n else None)"

datatype numeric = NaN | Dec rat

definition to_lower :: "char \<Rightarrow> char" where
  "to_lower c = (if 65 \<le> char_code c \<and> char_code c \<le> 90 then char_of (char_code c + 32) else c)"

definition pow10 :: "int \<Rightarrow> rat" where
  "pow10 e = (if 0 \<le> e then 10 ^ nat e else 1 / 10 ^ nat (- e))"

definition decimal_in :: "string \<Rightarrow> rat option" where
  "decimal_in s =
     (let neg = fst (split_sign s); r = snd (split_sign s);
          ip = takeWhile is_digit r; r1 = dropWhile is_digit r;
          fp = (case r1 of [] \<Rightarrow> [] | c # cs \<Rightarrow> if c = CHR ''.'' then takeWhile is_digit cs else []);
          r2 = (case r1 of [] \<Rightarrow> [] | c # cs \<Rightarrow> if c = CHR ''.'' then dropWhile is_digit cs else r1);
          ex = (case r2 of [] \<Rightarrow> Some 0
                | c # cs \<Rightarrow> if c = CHR ''e'' \<or> c = CHR ''E'' then signed_digits cs else None)
      in if ip @ fp = [] then None
         else case ex of
                None \<Rightarrow> None
              | Some e \<Rightarrow>
                  if 1073741823 \<le> \<bar>e\<bar> then None
                  else Some ((if neg then - 1 else 1) * of_int (digits_value (ip @ fp))
                             * pow10 (e - int (length fp))))"

definition numeric_in :: "string \<Rightarrow> numeric option" where
  "numeric_in s =
     (if map to_lower (trim s) = ''nan'' then Some NaN
      else map_option Dec (decimal_in (trim s)))"

text \<open>
  NUMERIC(10, 2): rounded to two decimals, half away from zero; eight digits before
  the point at most.
\<close>

definition round2 :: "rat \<Rightarrow> rat" where
  "round2 x = (if 0 \<le> x then of_int \<lfloor>x * 100 + 1 / 2\<rfloor> / 100
               else - (of_int \<lfloor>- x * 100 + 1 / 2\<rfloor> / 100))"

fun numeric_10_2 :: "numeric \<Rightarrow> numeric option" where
  "numeric_10_2 NaN = Some NaN"
| "numeric_10_2 (Dec x) = (if \<bar>round2 x\<bar> < 100000000 then Some (Dec (round2 x)) else None)"

text \<open>
  VARCHAR(n): up to \<open>n\<close> characters; a longer text is cut to \<open>n\<close> when what is cut off
  is spaces only, and refused otherwise.
\<close>

definition varchar :: "nat \<Rightarrow> string \<Rightarrow> string option" where
  "varchar n s =
     (let cs = utf8_chars s in
      if length cs \<le> n then Some s
      else if list_all (\<lambda>ch. ch = '' '') (drop n cs) then Some (concat (take n cs))
      else None)"

text \<open>
  A parameter as a statement receives it: malformed for the type it is bound to
  (the statement fails before it runs), NULL, or a value. A text with a zero byte is
  malformed for every type.
\<close>

datatype 'a cell = Malformed | Null | Val 'a

definition has_zero_byte :: "string \<Rightarrow> bool" where
  "has_zero_byte s = (CHR 0x00 \<in> set s)"

definition text_bind :: "string option \<Rightarrow> string cell" where
  "text_bind p = (case p of None \<Rightarrow> Null
                  | Some s \<Rightarrow> if has_zero_byte s then Malformed else Val s)"

definition varchar_bind :: "nat \<Rightarrow> string option \<Rightarrow> string cell" where
  "varchar_bind n p =
     (case p of None \<Rightarrow> Null
      | Some s \<Rightarrow> if has_zero_byte s then Malformed
                  else case varchar n s of None \<Rightarrow> Malformed | Some t \<Rightarrow> Val t)"

definition int4_bind :: "string option \<Rightarrow> int cell" where
  "int4_bind p = (case p of None \<Rightarrow> Null
                  | Some s \<Rightarrow> case int4in s of None \<Rightarrow> Malformed | Some n \<Rightarrow> Val n)"

definition numeric_bind :: "string option \<Rightarrow> numeric cell" where
  "numeric_bind p =
     (case p of None \<Rightarrow> Null
      | Some s \<Rightarrow> case numeric_in s of None \<Rightarrow> Malformed
                  | Some x \<Rightarrow> case numeric_10_2 x of None \<Rightarrow> Malformed | Some y \<Rightarrow> Val y)"

text \<open>Two parameters of one statement: malformed if either is, else NULL if either is.\<close>

fun both :: "'a cell \<Rightarrow> 'b cell \<Rightarrow> ('a \<times> 'b) cell" where
  "both Malformed y = Malformed"
| "both x Malformed = Malformed"
| "both Null y = Null"
| "both x Null = Null"
| "both (Val a) (Val b) = Val (a, b)"

fun map_cell :: "('a \<Rightarrow> 'b) \<Rightarrow> 'a cell \<Rightarrow> 'b cell" where
  "map_cell f Malformed = Malformed"
| "map_cell f Null = Null"
| "map_cell f (Val a) = Val (f a)"


section \<open>The store\<close>

text \<open>
  The four tables of \<^verbatim>\<open>initDB\<close>, with the column types it declares. A row id is
  the value of the table's SERIAL sequence. Every column is NOT NULL, the email is
  UNIQUE, and a product's seller, an order's buyer and an order item's order and
  product reference an existing row; deleting a product deletes the order items that
  reference it. The \<^verbatim>\<open>created_at\<close> columns are filled by the database default and
  read by no handler; they are left out. A row is kept as the database holds it; the
  driver hands an INTEGER back as a number and a VARCHAR and a NUMERIC as strings.

  The two source files differ in three places, all of them in the SQL text: the
  product's seller column holds the caller's email in \<^verbatim>\<open>index.js\<close> and the caller's
  id in the other file; an order item has a price column only in the other file; and
  \<^verbatim>\<open>index.js\<close> creates no tables. Its tables are taken to be those of the other
  file, the seller column being a VARCHAR(255) that references nothing.
\<close>

datatype variant = IndexJs | Part000

datatype seller = SellerId int | SellerEmail string

record user_row =
  u_id :: int
  u_email :: string
  u_password :: string
  u_role :: string

record product_row =
  p_id :: int
  p_name :: string
  p_price :: numeric
  p_stock :: int
  p_seller :: seller

record order_row =
  o_id :: int
  o_buyer :: int
  o_total :: numeric

record item_row =
  i_id :: int
  i_order_id :: int
  i_product_id :: int
  i_quantity :: int
  i_price :: "numeric option"

record store =
  users :: "user_row list"
  products :: "product_row list"
  orders :: "order_row list"
  order_items :: "item_row list"
  users_seq :: int
  products_seq :: int
  orders_seq :: int
  order_items_seq :: int

text \<open>
  Each \<^verbatim>\<open>pool.query\<close> call below takes a flag \<open>rejected\<close>: the call fails for a
  reason that is not in the request (the connection, the server), and the store is
  left as it was. The handlers take a function \<open>fails\<close> from the position of a call
  within the request (0 for the first call) to that flag. A statement also fails on
  a malformed parameter, before it runs, and on a violated constraint, after the
  sequence has given out the id.
\<close>

definition seller_bind :: "variant \<Rightarrow> jsval \<Rightarrow> seller cell" where
  "seller_bind v sl =
     (case v of
        IndexJs \<Rightarrow> map_cell SellerEmail (varchar_bind 255 (prepareValue sl))
      | Part000 \<Rightarrow> map_cell SellerId (int4_bind (prepareValue sl)))"

definition seller_where :: "variant \<Rightarrow> jsval \<Rightarrow> seller cell" where
  "seller_where v sl =
     (case v of
        IndexJs \<Rightarrow> map_cell SellerEmail (text_bind (prepareValue sl))
      | Part000 \<Rightarrow> map_cell SellerId (int4_bind (prepareValue sl)))"

fun seller_known :: "seller \<Rightarrow> store \<Rightarrow> bool" where
  "seller_known (SellerId n) db = (n \<in> set (map u_id (users db)))"
| "seller_known (SellerEmail e) db = True"

definition insert_product ::
    "variant \<Rightarrow> bool \<Rightarrow> jsval \<Rightarrow> jsval \<Rightarrow> jsval \<Rightarrow> jsval \<Rightarrow> store
      \<Rightarrow> (js_error + product_row) \<times> store" where
  "insert_product v rejected nm pr st sl db =
     (if rejected then (Inl DbError, db)
      else case both (varchar_bind 255 (prepareValue nm))
                  (both (numeric_bind (prepareValue pr))
                     (both (int4_bind (prepareValue st)) (seller_bind v sl))) of
             Malformed \<Rightarrow> (Inl DbError, db)
           | Null \<Rightarrow> (Inl DbError, db\<lparr>products_seq := products_seq db + 1\<rparr>)
           | Val (n, p, s, owner) \<Rightarrow>
               if seller_known owner db
               then let row = \<lparr>p_id = products_seq db, p_name = n, p_price = p,
                                p_stock = s, p_seller = owner\<rparr>
                    in (Inr row, db\<lparr>products := products db @ [row],
                                    products_seq := products_seq db + 1\<rparr>)
               else (Inl DbError, db\<lparr>products_seq := products_seq db + 1\<rparr>))"

definition select_products_in_stock :: "bool \<Rightarrow> store \<Rightarrow> js_error + product_row list" where
  "select_products_in_stock rejected db =
     (if rejected then Inl DbError
      else Inr (filter (\<lambda>p. 0 < p_stock p) (products db)))"

definition delete_product_row ::
    "variant \<Rightarrow> bool \<Rightarrow> string \<Rightarrow> jsval \<Rightarrow> store \<Rightarrow> js_error + (product_row list \<times> store)" where
  "delete_product_row v rejected seg sl db =
     (if rejected then Inl DbError
      else case both (int4_bind (prepareValue (JStr seg))) (seller_where v sl) of
             Malformed \<Rightarrow> Inl DbError
           | Null \<Rightarrow> Inr ([], db)
           | Val (n, owner) \<Rightarrow>
               let gone = filter (\<lambda>p. p_id p = n \<and> p_seller p = owner) (products db);
                   kept = filter (\<lambda>p. \<not> (p_id p = n \<and> p_seller p = owner)) (products db);
                   items = (if gone \<noteq> []
                            then filter (\<lambda>i. i_product_id i \<noteq> n) (order_items db)
                            else order_items db)
               in Inr (gone, db\<lparr>products := kept, order_items := items\<rparr>))"

definition has_email :: "jsval \<Rightarrow> user_row \<Rightarrow> bool" where
  "has_email e u = (text_bind (prepareValue e) = Val (u_email u))"

definition has_password :: "jsval \<Rightarrow> user_row \<Rightarrow> bool" where
  "has_password pw u = (text_bind (prepareValue pw) = Val (u_password u))"

definition matches_credentials :: "jsval \<Rightarrow> jsval \<Rightarrow> user_row \<Rightarrow> bool" where
  "matches_credentials e pw u = (has_email e u \<and> has_password pw u)"

definition select_user_by_credentials ::
    "bool \<Rightarrow> jsval \<Rightarrow> jsval \<Rightarrow> store \<Rightarrow> js_error + user_row list" where
  "select_user_by_credentials rejected e pw db =
     (if rejected then Inl DbError
      else case both (text_bind (prepareValue e)) (text_bind (prepareValue pw)) of
             Malformed \<Rightarrow> Inl DbError
           | Null \<Rightarrow> Inr []
           | Val (em, p) \<Rightarrow> Inr (filter (\<lambda>u. u_email u = em \<and> u_password u = p) (users db)))"



definition insert_order ::
    "bool \<Rightarrow> jsval \<Rightarrow> jsval \<Rightarrow> store \<Rightarrow> (js_error + int) \<times> store" where
  "insert_order rejected b t db =
     (if rejected then (Inl DbError, db)
      else case both (int4_bind (prepareValue b)) (numeric_bind (prepareValue t)) of
             Malformed \<Rightarrow> (Inl DbError, db)
           | Null \<Rightarrow> (Inl DbError, db\<lparr>orders_seq := orders_seq db + 1\<rparr>)
           | Val (buyer, amount) \<Rightarrow>
               if buyer \<in> set (map u_id (users db))
               then let row = \<lparr>o_id = orders_seq db, o_buyer = buyer, o_total = amount\<rparr>
                    in (Inr (o_id row), db\<lparr>orders := orders db @ [row],
                                           orders_seq := orders_seq db + 1\<rparr>)
               else (Inl DbError, db\<lparr>orders_seq := orders_seq db + 1\<rparr>))"

text \<open>The price parameter is there only where the statement has a price column.\<close>

definition price_bind :: "jsval option \<Rightarrow> numeric option cell" where
  "price_bind pr = (case pr of None \<Rightarrow> Val None
                    | Some x \<Rightarrow> map_cell Some (numeric_bind (prepareValue x)))"

definition insert_order_item ::
    "bool \<Rightarrow> int \<Rightarrow> jsval \<Rightarrow> jsval \<Rightarrow> jsval option \<Rightarrow> store \<Rightarrow> (js_error + unit) \<times> store" where
  "insert_order_item rejected oid pid q pr db =
     (if rejected then (Inl DbError, db)
      else case both (int4_bind (prepareValue pid))
                  (both (int4_bind (prepareValue q)) (price_bind pr)) of
             Malformed \<Rightarrow> (Inl DbError, db)
           | Null \<Rightarrow> (Inl DbError, db\<lparr>order_items_seq := order_items_seq db + 1\<rparr>)
           | Val (product, quantity, price) \<Rightarrow>
               if oid \<in> set (map o_id (orders db)) \<and> product \<in> set (map p_id (products db))
               then let row = \<lparr>i_id = order_items_seq db, i_order_id = oid,
                                i_product_id = product, i_quantity = quantity,
                                i_price = price\<rparr>
                    in (Inr (), db\<lparr>order_items := order_items db @ [row],
                                   order_items_seq := order_items_seq db + 1\<rparr>)
               else (Inl DbError, db\<lparr>order_items_seq := order_items_seq db + 1\<rparr>))"


section \<open>Session tokens\<close>

text \<open>
  \<^verbatim>\<open>jsonwebtoken\<close> is taken symbolically: a token is its payload together with the
  key it was signed with. \<^verbatim>\<open>jwt.sign(payload, key, { expiresIn: '1h' })\<close> stamps the
  payload with the issue time and an expiry 3600 seconds later; \<^verbatim>\<open>jwt.verify\<close>
  returns the payload of a token signed with the same key whose expiry is still ahead,
  and reports an error otherwise. Time is in whole seconds.
\<close>

record claims =
  c_id :: jsval
  c_email :: jsval
  c_role :: jsval
  c_iat :: nat
  c_exp :: nat

record jwt =
  payload :: claims
  signed_with :: string

datatype jwt_error = JsonWebTokenError | TokenExpiredError

definition jwt_sign :: "jsval \<Rightarrow> jsval \<Rightarrow> jsval \<Rightarrow> string \<Rightarrow> nat \<Rightarrow> jwt" where
  "jwt_sign uid em rl key now =
     \<lparr>payload = \<lparr>c_id = uid, c_email = em, c_role = rl, c_iat = now, c_exp = now + 3600\<rparr>,
      signed_with = key\<rparr>"

text \<open>
  The \<^verbatim>\<open>authorization\<close> header: not sent, a string that is no token (\<open>Raw\<close>), or
  a token.
\<close>

datatype authorization = Absent | Raw string | Token jwt

fun jwt_verify :: "authorization \<Rightarrow> string \<Rightarrow> nat \<Rightarrow> jwt_error + claims" where
  "jwt_verify (Token t) key now =
     (if signed_with t \<noteq> key then Inl JsonWebTokenError
      else if c_exp (payload t) \<le> now then Inl TokenExpiredError
      else Inr (payload t))"
| "jwt_verify h key now = Inl JsonWebTokenError"

text \<open>\<^verbatim>\<open>process.env.SECRET_KEY || 'secretkey'\<close>.\<close>

definition secret_key :: "string option \<Rightarrow> string" where
  "secret_key env = (case env of None \<Rightarrow> ''secretkey''
                     | Some s \<Rightarrow> if s = [] then ''secretkey'' else s)"


section \<open>Responses\<close>

datatype reply =
    Message string
  | MessageUser string user_row
  | MessageProduct string product_row
  | MessageToken string jwt jsval
  | MessageOrder string int
  | Rows "product_row list"

record response =
  status :: nat
  reply :: reply

definition json :: "nat \<Rightarrow> reply \<Rightarrow> response" where
  "json code r = \<lparr>status = code, reply = r\<rparr>"


section \<open>The handlers\<close>

text \<open>
  The middleware \<^verbatim>\<open>verifyToken\<close>: the left result is the response it sends itself,
  the right one the decoded claims it stores in \<^verbatim>\<open>req.user\<close> before calling
  \<^verbatim>\<open>next()\<close>.
\<close>

definition verifyToken :: "string option \<Rightarrow> nat \<Rightarrow> authorization \<Rightarrow> response + claims" where
  "verifyToken env now token =
     (if token = Absent \<or> token = Raw []
      then Inl (json 403 (Message (''No se proporcion'' @ [CHR 0xC3, CHR 0xB3] @ '' un token'')))
      else case jwt_verify token (secret_key env) now of
             Inl err \<Rightarrow> Inl (json 401 (Message (''Token no v'' @ [CHR 0xC3, CHR 0xA1] @ ''lido'')))
           | Inr decoded \<Rightarrow> Inr decoded)"

text \<open>The caller's identity as the product statements use it.\<close>

definition seller_ref :: "variant \<Rightarrow> claims \<Rightarrow> jsval" where
  "seller_ref v user = (case v of IndexJs \<Rightarrow> c_email user | Part000 \<Rightarrow> c_id user)"

text \<open>\<^verbatim>\<open>POST /upload-product\<close>, after the middleware.\<close>

definition upload_product ::
    "variant \<Rightarrow> claims \<Rightarrow> body \<Rightarrow> (nat \<Rightarrow> bool) \<Rightarrow> store \<Rightarrow> response \<times> store" where
  "upload_product v user b fails db =
     (let name = field b ''name''; price = field b ''price''; stock = field b ''stock'' in
      if \<not> truthy name \<or> \<not> truthy price \<or> \<not> truthy stock
      then (json 400 (Message ''Todos los campos son obligatorios''), db)
      else if c_role user \<noteq> JStr ''seller''
      then (json 403 (Message ''Solo los vendedores pueden subir productos''), db)
      else case insert_product v (fails 0) name price stock (seller_ref v user) db of
             (Inl err, db') \<Rightarrow> (json 500 (Message ''Error al subir producto''), db')
           | (Inr row, db') \<Rightarrow>
               (json 201 (MessageProduct ''Producto subido exitosamente'' row), db'))"

text \<open>\<^verbatim>\<open>GET /products\<close>.\<close>

definition get_products :: "(nat \<Rightarrow> bool) \<Rightarrow> store \<Rightarrow> response \<times> store" where
  "get_products fails db =
     (case select_products_in_stock (fails 0) db of
        Inl err \<Rightarrow> (json 500 (Message ''Error al obtener productos''), db)
      | Inr rows \<Rightarrow> (json 200 (Rows rows), db))"

text \<open>
  \<^verbatim>\<open>DELETE /products/:id\<close>, after the middleware; \<open>seg\<close> is the path segment
  \<^verbatim>\<open>req.params.id\<close>, a string.
\<close>

definition delete_product ::
    "variant \<Rightarrow> claims \<Rightarrow> string \<Rightarrow> (nat \<Rightarrow> bool) \<Rightarrow> store \<Rightarrow> response \<times> store" where
  "delete_product v user seg fails db =
     (if c_role user \<noteq> JStr ''seller''
      then (json 403 (Message ''Solo los vendedores pueden eliminar productos''), db)
      else case delete_product_row v (fails 0) seg (seller_ref v user) db of
             Inl err \<Rightarrow> (json 500 (Message ''Error al eliminar producto''), db)
           | Inr (rows, db') \<Rightarrow>
               if length rows = 0
               then (json 404 (Message
                       ''Producto no encontrado o no tienes permiso para eliminarlo''), db')
               else (json 200 (Message ''Producto eliminado exitosamente''), db'))"

text \<open>\<^verbatim>\<open>POST /login\<close>.\<close>

definition login ::
    "string option \<Rightarrow> nat \<Rightarrow> body \<Rightarrow> (nat \<Rightarrow> bool) \<Rightarrow> store \<Rightarrow> response \<times> store" where
  "login env now b fails db =
     (let email = field b ''email''; password = field b ''password'' in
      case select_user_by_credentials (fails 0) email password db of
        Inl err \<Rightarrow> (json 401 (Message ''Credenciales incorrectas''), db)
      | Inr [] \<Rightarrow> (json 401 (Message ''Credenciales incorrectas''), db)
      | Inr (user # others) \<Rightarrow>
          (let token = jwt_sign (JNum (of_int (u_id user))) (JStr (u_email user))
                         (JStr (u_role user)) (secret_key env) now
           in (json 200 (MessageToken (''Inicio de sesi'' @ [CHR 0xC3, CHR 0xB3] @ ''n exitoso'')
                           token (JStr (u_role user))), db)))"


text \<open>
  \<^verbatim>\<open>POST /orders\<close>, after the middleware. The parameters of one line's statement
  are evaluated first (\<^verbatim>\<open>product.id\<close> throws on a \<^verbatim>\<open>null\<close> line), then the
  statement runs; the \<open>k\<close>-th line's statement is call \<open>k\<close> of the request, the order
  header being call 0. Whatever is thrown inside \<^verbatim>\<open>try\<close> ends the loop; the store
  keeps what was written until then.
\<close>

definition item_params :: "variant \<Rightarrow> jsval \<Rightarrow> js_error + (jsval \<times> jsval \<times> jsval option)" where
  "item_params v product =
     (case get_prop product ''id'' of
        Inl err \<Rightarrow> Inl err
      | Inr pid \<Rightarrow>
          (case get_prop product ''quantity'' of
             Inl err \<Rightarrow> Inl err
           | Inr q \<Rightarrow>
               (let quantity = (if truthy q then q else JNum 1) in
                case v of
                  IndexJs \<Rightarrow> Inr (pid, quantity, None)
                | Part000 \<Rightarrow>
                    (case get_prop product ''price'' of
                       Inl err \<Rightarrow> Inl err
                     | Inr pr \<Rightarrow> Inr (pid, quantity, Some pr)))))"

fun insert_items ::
    "variant \<Rightarrow> (nat \<Rightarrow> bool) \<Rightarrow> nat \<Rightarrow> int \<Rightarrow> jsval list \<Rightarrow> store \<Rightarrow> js_error option \<times> store" where
  "insert_items v fails k orderId [] db = (None, db)"
| "insert_items v fails k orderId (product # rest) db =
     (case item_params v product of
        Inl err \<Rightarrow> (Some err, db)
      | Inr (pid, quantity, pr) \<Rightarrow>
          (case insert_order_item (fails k) orderId pid quantity pr db of
             (Inl err, db') \<Rightarrow> (Some err, db')
           | (Inr u, db') \<Rightarrow> insert_items v fails (Suc k) orderId rest db'))"

definition create_order ::
    "variant \<Rightarrow> claims \<Rightarrow> body \<Rightarrow> (nat \<Rightarrow> bool) \<Rightarrow> store \<Rightarrow> response \<times> store" where
  "create_order v user b fails db =
     (let cart = field b ''products''; total = field b ''total'' in
      if \<not> truthy cart \<or> get_prop cart ''length'' = Inr (JNum 0) \<or> \<not> truthy total
      then (json 400 (Message ''Datos incompletos para procesar la orden.''), db)
      else case insert_order (fails 0) (c_id user) total db of
             (Inl err, db1) \<Rightarrow> (json 500 (Message ''Error al crear orden''), db1)
           | (Inr orderId, db1) \<Rightarrow>
               (case iterate cart of
                  Inl err \<Rightarrow> (json 500 (Message ''Error al crear orden''), db1)
                | Inr lines \<Rightarrow>
                    (case insert_items v fails 1 orderId lines db1 of
                       (Some err, db2) \<Rightarrow> (json 500 (Message ''Error al crear orden''), db2)
                     | (None, db2) \<Rightarrow>
                         (json 201 (MessageOrder ''Orden creada exitosamente'' orderId), db2))))"

text \<open>The three routes behind the middleware.\<close>

definition post_upload_product ::
    "variant \<Rightarrow> string option \<Rightarrow> nat \<Rightarrow> authorization \<Rightarrow> body \<Rightarrow> (nat \<Rightarrow> bool) \<Rightarrow> store
      \<Rightarrow> response \<times> store" where
  "post_upload_product v env now token b fails db =
     (case verifyToken env now token of
        Inl r \<Rightarrow> (r, db)
      | Inr user \<Rightarrow> upload_product v user b fails db)"

definition delete_products_id ::
    "variant \<Rightarrow> string option \<Rightarrow> nat \<Rightarrow> authorization \<Rightarrow> string \<Rightarrow> (nat \<Rightarrow> bool) \<Rightarrow> store
      \<Rightarrow> response \<times> store" where
  "delete_products_id v env now token seg fails db =
     (case verifyToken env now token of
        Inl r \<Rightarrow> (r, db)
      | Inr user \<Rightarrow> delete_product v user seg fails db)"

definition post_orders ::
    "variant \<Rightarrow> string option \<Rightarrow> nat \<Rightarrow> authorization \<Rightarrow> body \<Rightarrow> (nat \<Rightarrow> bool) \<Rightarrow> store
      \<Rightarrow> response \<times> store" where
  "post_orders v env now token b fails db =
     (case verifyToken env now token of
        Inl r \<Rightarrow> (r, db)
      | Inr user \<Rightarrow> create_order v user b fails db)"


section \<open>Auxiliary notions for the statements\<close>

text \<open>The store right after \<^verbatim>\<open>initDB\<close> on a fresh database.\<close>

definition initDB :: store where
  "initDB = \<lparr>users = [], products = [], orders = [], order_items = [],
             users_seq = 1, products_seq = 1, orders_seq = 1, order_items_seq = 1\<rparr>"

text \<open>Two behaviours of the database: no call is rejected; exactly call \<open>n\<close> is rejected.\<close>

definition all_succeed :: "nat \<Rightarrow> bool" where
  "all_succeed i = False"





fun is_val :: "'a cell \<Rightarrow> bool" where
  "is_val (Val a) = True"
| "is_val c = False"



text \<open>
  The product belongs to the caller: its seller is the caller's id (in \<^verbatim>\<open>index.js\<close>
  the caller's email) as the token carries it.
\<close>

definition owned_by_caller :: "variant \<Rightarrow> claims \<Rightarrow> product_row \<Rightarrow> bool" where
  "owned_by_caller v user p =
     (case p_seller p of
        SellerId n \<Rightarrow> v = Part000 \<and> int4_bind (prepareValue (c_id user)) = Val n
      | SellerEmail e \<Rightarrow> v = IndexJs \<and> text_bind (prepareValue (c_email user)) = Val e)"


text \<open>The product rows a response carries.\<close>

definition listed :: "response \<Rightarrow> product_row list" where
  "listed r = (case reply r of Rows ps \<Rightarrow> ps | _ \<Rightarrow> [])"


section \<open>Example data\<close>

text \<open>
  The users of the end-to-end scenario, a buyer and a seller, and a second seller; two
  products, one of each seller, the second out of stock; the claims the login of the
  buyer and of the first seller put into their tokens; and an order of two lines, the
  second with quantity 0.
\<close>

definition example_users :: store where
  "example_users = initDB\<lparr>users :=
      [\<lparr>u_id = 1, u_email = ''b@x.com'', u_password = ''pw'', u_role = ''buyer''\<rparr>,
       \<lparr>u_id = 2, u_email = ''s@x.com'', u_password = ''pw'', u_role = ''seller''\<rparr>,
       \<lparr>u_id = 3, u_email = ''t@x.com'', u_password = ''12345'', u_role = ''seller''\<rparr>],
      users_seq := 4\<rparr>"

definition example_products :: store where
  "example_products = example_users\<lparr>products :=
      [\<lparr>p_id = 1, p_name = ''Widget'', p_price = Dec (999 / 100), p_stock = 5,
        p_seller = SellerId 2\<rparr>,
       \<lparr>p_id = 2, p_name = ''Gadget'', p_price = Dec 3, p_stock = 0,
        p_seller = SellerId 3\<rparr>],
      products_seq := 3\<rparr>"

definition example_seller :: claims where
  "example_seller = \<lparr>c_id = JNum 2, c_email = JStr ''s@x.com'', c_role = JStr ''seller'',
                      c_iat = 1000, c_exp = 4600\<rparr>"

definition example_buyer :: claims where
  "example_buyer = \<lparr>c_id = JNum 1, c_email = JStr ''b@x.com'', c_role = JStr ''buyer'',
                     c_iat = 1000, c_exp = 4600\<rparr>"




section \<open>Basic facts\<close>




lemma not_is_val: "\<not> is_val c \<longleftrightarrow> c = Malformed \<or> c = Null"
  by (cases c) simp_all

lemma text_bind_JStr: "\<not> has_zero_byte s \<Longrightarrow> text_bind (prepareValue (JStr s)) = Val s"
  by (simp add: text_bind_def prepareValue.simps)

lemma example_users_rows:
  "users example_users =
      [\<lparr>u_id = 1, u_email = ''b@x.com'', u_password = ''pw'', u_role = ''buyer''\<rparr>,
       \<lparr>u_id = 2, u_email = ''s@x.com'', u_password = ''pw'', u_role = ''seller''\<rparr>,
       \<lparr>u_id = 3, u_email = ''t@x.com'', u_password = ''12345'', u_role = ''seller''\<rparr>]"
  by (simp add: example_users_def)


lemma example_claims:
  "c_id example_seller = JNum 2" "c_email example_seller = JStr ''s@x.com''"
  "c_role example_seller = JStr ''seller''"
  "c_id example_buyer = JNum 1" "c_email example_buyer = JStr ''b@x.com''"
  "c_role example_buyer = JStr ''buyer''"
  by (simp_all add: example_seller_def example_buyer_def)






section \<open>Login and session tokens\<close>

lemma login_no_match:
  assumes "\<forall>u\<in>set (users db). \<not> matches_credentials (field b ''email'') (field b ''password'') u"
  shows "login env now b fails db = (json 401 (Message ''Credenciales incorrectas''), db)"
proof (cases "select_user_by_credentials (fails 0) (field b ''email'') (field b ''password'') db")
  case (Inl e)
  then show ?thesis by (simp add: login_def Let_def)
next
  case (Inr rows)
  have "rows = []"
  proof (rule ccontr)
    assume "rows \<noteq> []"
    then obtain u where u: "u \<in> set rows" by (cases rows) auto
    from Inr u have "u \<in> set (users db) \<and>
        matches_credentials (field b ''email'') (field b ''password'') u"
      by (auto simp: select_user_by_credentials_def matches_credentials_def has_email_def
          has_password_def split: if_splits cell.splits
          elim!: both.elims)
    with assms show False by blast
  qed
  with Inr show ?thesis by (simp add: login_def Let_def)
qed



text \<open>
  Claim C10. The login handler has no validation step: when the body has no email or
  no password, the lookup runs with NULL for the missing parameter, matches no row, and
  the response is the 401 of a failed login, whatever the store holds; it is never 400.
\<close>

theorem login_missing_field_401:
  assumes "map_of b ''email'' = None \<or> map_of b ''password'' = None"
  shows "login env now b fails db = (json 401 (Message ''Credenciales incorrectas''), db) \<and>
         status (fst (login env now b fails db)) \<noteq> 400"
proof -
  have "field b ''email'' = JUndefined \<or> field b ''password'' = JUndefined"
    using assms by (auto simp: field_def)
  then have "\<forall>u\<in>set (users db).
      \<not> matches_credentials (field b ''email'') (field b ''password'') u"
    by (auto simp: matches_credentials_def has_email_def has_password_def text_bind_def
        prepareValue.simps)
  then show ?thesis
    by (simp add: login_no_match json_def)
qed

theorem login_missing_field_401_witness:
  "login None 0 [(''email'', JStr ''b@x.com'')] all_succeed example_users
     = (json 401 (Message ''Credenciales incorrectas''), example_users)"
  using login_missing_field_401 [of "[(''email'', JStr ''b@x.com'')]" None 0
      all_succeed example_users]
  by simp

text \<open>
  Claim C6. A login that answers 200 matched a stored user; the token in the response
  carries exactly that row's id, email and role, the issue time and an expiry 3600
  seconds later. Presented to the middleware at any time before the expiry, under the
  same environment, the token is accepted and the claims handed to the handlers are the
  ones written at login; from the expiry on it is answered with 401. The middleware
  never reads the store, so the three protected routes run their handler with those
  claims whatever the store holds by then.
\<close>

theorem login_token_roundtrip:
  assumes ok: "status (fst (login env t0 b fails db)) = 200"
    and fresh: "now < t0 + 3600"
  shows "\<exists>u\<in>set (users db). \<exists>tok.
           matches_credentials (field b ''email'') (field b ''password'') u \<and>
           fst (login env t0 b fails db) =
             json 200 (MessageToken (''Inicio de sesi'' @ [CHR 0xC3, CHR 0xB3] @ ''n exitoso'')
                         tok (JStr (u_role u))) \<and>
           payload tok = \<lparr>c_id = JNum (of_int (u_id u)), c_email = JStr (u_email u),
                           c_role = JStr (u_role u), c_iat = t0, c_exp = t0 + 3600\<rparr> \<and>
           verifyToken env now (Token tok) = Inr (payload tok) \<and>
           (\<forall>t\<ge>t0 + 3600. verifyToken env t (Token tok) =
              Inl (json 401 (Message (''Token no v'' @ [CHR 0xC3, CHR 0xA1] @ ''lido'')))) \<and>
           (\<forall>v bd seg fl db'.
              post_upload_product v env now (Token tok) bd fl db' =
                upload_product v (payload tok) bd fl db' \<and>
              delete_products_id v env now (Token tok) seg fl db' =
                delete_product v (payload tok) seg fl db' \<and>
              post_orders v env now (Token tok) bd fl db' =
                create_order v (payload tok) bd fl db')"
proof -
  obtain rows where sel:
    "select_user_by_credentials (fails 0) (field b ''email'') (field b ''password'') db = Inr rows"
    using ok
    by (cases "select_user_by_credentials (fails 0) (field b ''email'') (field b ''password'') db")
       (auto simp: login_def Let_def json_def)
  from ok sel obtain u others where rows: "rows = u # others"
    by (cases rows) (auto simp: login_def Let_def json_def)
  have "u \<in> set rows" using rows by simp
  with sel have u: "u \<in> set (users db)"
    "matches_credentials (field b ''email'') (field b ''password'') u"
    by (auto simp: select_user_by_credentials_def matches_credentials_def has_email_def
        has_password_def split: if_splits cell.splits elim!: both.elims)
  let ?tok = "jwt_sign (JNum (of_int (u_id u))) (JStr (u_email u)) (JStr (u_role u))
                (secret_key env) t0"
  have r: "fst (login env t0 b fails db) =
      json 200 (MessageToken (''Inicio de sesi'' @ [CHR 0xC3, CHR 0xB3] @ ''n exitoso'')
                  ?tok (JStr (u_role u)))"
    using sel rows by (simp add: login_def Let_def)
  have p: "payload ?tok = \<lparr>c_id = JNum (of_int (u_id u)), c_email = JStr (u_email u),
                           c_role = JStr (u_role u), c_iat = t0, c_exp = t0 + 3600\<rparr>"
    by (simp add: jwt_sign_def)
  have v: "verifyToken env now (Token ?tok) = Inr (payload ?tok)"
    using fresh by (simp add: verifyToken_def jwt_sign_def)
  have x: "\<forall>t\<ge>t0 + 3600. verifyToken env t (Token ?tok) =
      Inl (json 401 (Message (''Token no v'' @ [CHR 0xC3, CHR 0xA1] @ ''lido'')))"
    by (simp add: verifyToken_def jwt_sign_def)
  show ?thesis
    using u r p v x
    by (intro bexI [of _ u] exI [of _ ?tok])
       (simp_all add: post_upload_product_def delete_products_id_def post_orders_def)
qed

theorem login_token_roundtrip_witness:
  "\<exists>tok. fst (login None 1000 [(''email'', JStr ''s@x.com''), (''password'', JStr ''pw'')]
                  all_succeed example_users)
          = json 200 (MessageToken (''Inicio de sesi'' @ [CHR 0xC3, CHR 0xB3] @ ''n exitoso'')
                        tok (JStr ''seller'')) \<and>
        verifyToken None 4599 (Token tok) =
          Inr \<lparr>c_id = JNum 2, c_email = JStr ''s@x.com'', c_role = JStr ''seller'',
               c_iat = 1000, c_exp = 4600\<rparr>"
proof -
  have z: "\<not> has_zero_byte ''s@x.com''" "\<not> has_zero_byte ''pw''"
    by (simp_all add: has_zero_byte_def)
  have ok: "status (fst (login None 1000 [(''email'', JStr ''s@x.com''), (''password'', JStr ''pw'')]
                  all_succeed example_users)) = 200"
    by (simp add: login_def select_user_by_credentials_def text_bind_JStr z
        field_def all_succeed_def example_users_rows json_def Let_def)
  have fresh: "(4599::nat) < 1000 + 3600" by simp
  from login_token_roundtrip [OF ok fresh]
  show ?thesis
    by (auto simp: matches_credentials_def has_email_def has_password_def text_bind_JStr z
        field_def example_users_rows)
qed

text \<open>A password sent as the number 12345 matches the stored text.\<close>

lemma login_password_as_text:
  "status (fst (login None 0 [(''email'', JStr ''t@x.com''), (''password'', JNum 12345)]
                  all_succeed example_users)) = 200"
proof -
  have "text_bind (prepareValue (JStr ''t@x.com'')) = Val ''t@x.com''"
    "text_bind (prepareValue (JNum 12345)) = Val ''12345''"
    by code_simp+
  then show ?thesis
    by (simp add: login_def select_user_by_credentials_def field_def all_succeed_def
        example_users_rows json_def Let_def)
qed



section \<open>Registration\<close>








section \<open>Products\<close>

text \<open>
  Claim C8. Every row \<^verbatim>\<open>GET /products\<close> returns is a stored product whose stock is
  above zero; a product whose stock is zero or negative is never returned. When
  the query is not rejected, the response is 200 and holds every stored product with
  stock above zero, in storage order, and the store is unchanged.
\<close>

theorem get_products_stock_positive:
  "(\<forall>p\<in>set (listed (fst (get_products fails db))).
       p \<in> set (products db) \<and> 0 < p_stock p) \<and>
   (\<forall>p\<in>set (products db). p_stock p \<le> 0 \<longrightarrow>
       p \<notin> set (listed (fst (get_products fails db)))) \<and>
   (\<not> fails 0 \<longrightarrow>
       status (fst (get_products fails db)) = 200 \<and>
       listed (fst (get_products fails db)) = filter (\<lambda>p. 0 < p_stock p) (products db) \<and>
       (\<forall>p\<in>set (products db). 0 < p_stock p \<longrightarrow>
           p \<in> set (listed (fst (get_products fails db)))) \<and>
       snd (get_products fails db) = db)"
proof (cases "fails 0")
  case True
  then show ?thesis
    by (simp add: get_products_def select_products_in_stock_def listed_def json_def)
next
  case False
  then have L: "listed (fst (get_products fails db)) =
      filter (\<lambda>p. 0 < p_stock p) (products db)"
    by (simp add: get_products_def select_products_in_stock_def listed_def json_def)
  have S: "status (fst (get_products fails db)) = 200" "snd (get_products fails db) = db"
    using False by (simp_all add: get_products_def select_products_in_stock_def json_def)
  show ?thesis
    unfolding L using S by auto
qed

theorem get_products_stock_positive_witness:
  "listed (fst (get_products all_succeed example_products)) =
     [\<lparr>p_id = 1, p_name = ''Widget'', p_price = Dec (999 / 100), p_stock = 5,
        p_seller = SellerId 2\<rparr>]"
  using get_products_stock_positive [of all_succeed example_products]
  by (simp add: all_succeed_def example_products_def example_users_def initDB_def)






lemma seller_where_not_owned:
  "seller_where v (seller_ref v user) = Null \<Longrightarrow> \<not> owned_by_caller v user p"
  by (cases v; cases "p_seller p")
     (auto simp: seller_where_def seller_ref_def owned_by_caller_def
       elim!: map_cell.elims)




lemma closed_segment_facts:
  "int4_bind (prepareValue (JStr ''1'')) = Val 1"
  "int4_bind (prepareValue (JStr ''2'')) = Val 2"
  "int4_bind (prepareValue (JStr ''9'')) = Val 9"
  "int4_bind (prepareValue (JStr ''abc'')) = Malformed"
  "int4_bind (prepareValue (JStr ''2147483648'')) = Malformed"
  by code_simp+




text \<open>An id beyond 32 bits is answered likewise.\<close>

lemma delete_product_out_of_range:
  "delete_product Part000 example_seller ''2147483648'' all_succeed example_products =
     (json 500 (Message ''Error al eliminar producto''), example_products)"
  by (simp add: delete_product_def delete_product_row_def example_claims all_succeed_def
      closed_segment_facts)



section \<open>Orders\<close>


























end
